theory Spec2Isabelle
  imports Main
begin

section \<open>The SFTP transport adapter of conda\<close>

text \<open>
  A shallow embedding of \<^verbatim>\<open>conda/gateways/connection/adapters/sftp.py\<close>.
  Exceptions are values of \<open>py_error\<close>, a function that may raise returns
  \<open>py_error + 'a\<close>, and a function that touches the adapter's \<^verbatim>\<open>conn\<close> attribute or
  the module logger takes the state and returns the new one.

  A Python \<^verbatim>\<open>str\<close> is a \<open>string\<close>, one \<open>char\<close> for each code point; the model
  covers the texts whose code points are below 256.
\<close>

subsection \<open>Exceptions and the log\<close>

datatype py_error =
    IndexError
  | ValueError
  | KeyError string
  | AttributeError
  | SystemExit string
  | OSError "int option"
  | OtherError string

text \<open>The class test of \<^verbatim>\<open>except (OSError, IOError)\<close>.\<close>

fun is_os_error :: "py_error \<Rightarrow> bool" where
  "is_os_error (OSError errno) = True"
| "is_os_error e = False"

datatype log_arg = StrArg string | IntArg int | NoneArg

text \<open>A record of level WARNING: the format string and its arguments.\<close>

datatype log_record = LogWarning string "log_arg list"

subsection \<open>The builtins the status-code extractor uses\<close>

definition NL :: char where
  "NL = CHR 0x0A"

text \<open>
  \<^verbatim>\<open>str.isspace\<close> on one code point below 256, the test \<^verbatim>\<open>str.split()\<close> uses:
  tab to carriage return, the four separators 0x1C to 0x1F, space, NEL and the
  no-break space.
\<close>

definition py_isspace :: "char \<Rightarrow> bool" where
  "py_isspace c =
     (let n = (of_char c :: nat)
      in (9 \<le> n \<and> n \<le> 13) \<or> (28 \<le> n \<and> n \<le> 31) \<or> n = 32 \<or> n = 133 \<or> n = 160)"

text \<open>
  The white space \<^verbatim>\<open>int\<close> skips around a literal: the same set without the
  separators 0x1C to 0x1F.
\<close>

definition int_isspace :: "char \<Rightarrow> bool" where
  "int_isspace c =
     (let n = (of_char c :: nat)
      in (9 \<le> n \<and> n \<le> 13) \<or> n = 32 \<or> n = 133 \<or> n = 160)"

definition is_digit :: "char \<Rightarrow> bool" where
  "is_digit c = (let n = (of_char c :: nat) in 48 \<le> n \<and> n \<le> 57)"

definition digit_val :: "char \<Rightarrow> int" where
  "digit_val c = int (of_char c) - 48"

text \<open>
  \<^verbatim>\<open>s.split(sep)\<close> for a separator of one character: the text is cut at every
  occurrence of the separator, and the result is never the empty list.
\<close>

function split_sep :: "char \<Rightarrow> string \<Rightarrow> string list" where
  "split_sep sep s =
     (case dropWhile (\<lambda>c. c \<noteq> sep) s of
        [] \<Rightarrow> [s]
      | _ # rest \<Rightarrow> takeWhile (\<lambda>c. c \<noteq> sep) s # split_sep sep rest)"
  by pat_completeness auto
termination
proof (relation "measure (\<lambda>(sep, s). length s)")
  show "wf (measure (\<lambda>(sep, s). length s))"
    by simp
next
  fix sep :: char and s :: string and x :: char and rest :: string
  assume "dropWhile (\<lambda>c. c \<noteq> sep) s = x # rest"
  then have "length (x # rest) \<le> length s"
    using length_dropWhile_le [of "\<lambda>c. c \<noteq> sep" s] by simp
  then show "((sep, rest), (sep, s)) \<in> measure (\<lambda>(sep, s). length s)"
    by simp
qed

declare split_sep.simps [simp del]

text \<open>\<^verbatim>\<open>s.split()\<close>: the maximal runs of characters that are not white space.\<close>

function py_split :: "string \<Rightarrow> string list" where
  "py_split [] = []"
| "py_split (c # cs) =
     (if py_isspace c then py_split cs
      else (c # takeWhile (\<lambda>x. \<not> py_isspace x) cs)
             # py_split (dropWhile (\<lambda>x. \<not> py_isspace x) cs))"
  by pat_completeness auto
termination
  by (relation "measure length") (auto simp: length_dropWhile_le less_Suc_eq_le)

text \<open>\<^verbatim>\<open>xs[-1]\<close> and \<^verbatim>\<open>xs[0]\<close>: IndexError on the empty list.\<close>

definition py_last :: "'a list \<Rightarrow> py_error + 'a" where
  "py_last xs = (if xs = [] then Inl IndexError else Inr (last xs))"

definition py_first :: "'a list \<Rightarrow> py_error + 'a" where
  "py_first xs = (case xs of [] \<Rightarrow> Inl IndexError | x # _ \<Rightarrow> Inr x)"

text \<open>
  \<^verbatim>\<open>int(s)\<close> in base ten, as Python 3 reads a string: white space skipped on both
  sides, one optional sign, then decimal digits, where one underscore may stand
  between two digits. Anything else is a ValueError. (The interpreter's optional
  limit on the number of digits is not part of the model.)
\<close>

fun parse_digits :: "int \<Rightarrow> string \<Rightarrow> int option" where
  "parse_digits acc [] = Some acc"
| "parse_digits acc [c] = (if is_digit c then Some (10 * acc + digit_val c) else None)"
| "parse_digits acc (c # d # cs) =
     (if is_digit c then parse_digits (10 * acc + digit_val c) (d # cs)
      else if c = CHR ''_'' \<and> is_digit d then parse_digits (10 * acc + digit_val d) cs
      else None)"

fun parse_unsigned :: "string \<Rightarrow> int option" where
  "parse_unsigned [] = None"
| "parse_unsigned (c # cs) = (if is_digit c then parse_digits (digit_val c) cs else None)"

definition strip_int_space :: "string \<Rightarrow> string" where
  "strip_int_space s = rev (dropWhile int_isspace (rev (dropWhile int_isspace s)))"

definition parse_signed :: "string \<Rightarrow> int option" where
  "parse_signed s =
     (case s of
        [] \<Rightarrow> None
      | c # cs \<Rightarrow>
          if c = CHR ''+'' then parse_unsigned cs
          else if c = CHR ''-'' then map_option uminus (parse_unsigned cs)
          else parse_unsigned s)"

definition py_int :: "string \<Rightarrow> py_error + int" where
  "py_int s =
     (case parse_signed (strip_int_space s) of
        None \<Rightarrow> Inl ValueError
      | Some n \<Rightarrow> Inr n)"

subsection \<open>State\<close>

text \<open>
  A session of the SFTP client library: the arguments it was opened with and the
  number of calls of its \<^verbatim>\<open>close\<close>.
\<close>

record connection =
  c_hostname :: "string option"
  c_port :: int
  c_username :: "string option"
  c_password :: "string option"
  close_calls :: nat

text \<open>
  What the code mutates: the adapter's attribute \<^verbatim>\<open>conn\<close> (absent until the first
  \<^verbatim>\<open>send\<close>) and the records given to the module's logger.
\<close>

record state =
  conn :: "connection option"
  logged :: "log_record list"

definition log_warning :: "string \<Rightarrow> log_arg list \<Rightarrow> state \<Rightarrow> state" where
  "log_warning fmt args st = st\<lparr>logged := logged st @ [LogWarning fmt args]\<rparr>"

subsection \<open>The status-code extractor\<close>

definition inconsistent_fmt :: string where
  "inconsistent_fmt =
     ''FTP response status code seems to be inconsistent.'' @ [NL] @
     ''Code received: %s, extracted: %s and %s''"

definition get_status_code_from_code_response ::
  "string \<Rightarrow> state \<Rightarrow> (py_error + int) \<times> state" where
  "get_status_code_from_code_response code st =
     (case py_last (filter (\<lambda>line. line \<noteq> []) (split_sep NL code)) of
        Inl e \<Rightarrow> (Inl e, st)
      | Inr last_valid_line_from_code \<Rightarrow>
     (case py_first (py_split last_valid_line_from_code) of
        Inl e \<Rightarrow> (Inl e, st)
      | Inr token \<Rightarrow>
     (case py_int token of
        Inl e \<Rightarrow> (Inl e, st)
      | Inr status_code_from_last_line \<Rightarrow>
     (case py_int (take 3 code) of
        Inl e \<Rightarrow> (Inl e, st)
      | Inr status_code_from_first_digits \<Rightarrow>
          (Inr status_code_from_last_line,
           if status_code_from_last_line \<noteq> status_code_from_first_digits
           then log_warning inconsistent_fmt
                  [StrArg code, IntArg status_code_from_last_line,
                   IntArg status_code_from_first_digits] st
           else st)))))"

subsection \<open>Requests, responses and the libraries around the adapter\<close>

text \<open>What \<^verbatim>\<open>urlparse\<close> returns, as far as \<^verbatim>\<open>send\<close> reads it.\<close>

record parsed_url =
  p_hostname :: "string option"
  p_port :: "int option"
  p_username :: "string option"
  p_password :: "string option"
  p_path :: string

text \<open>The prepared request; the hooks are opaque to the adapter.\<close>

record 'h request =
  url :: string
  "method" :: string
  hooks :: 'h

text \<open>A \<^verbatim>\<open>BytesIO\<close>: its bytes and the position of the next read or write.\<close>

record bytesio =
  content :: string
  pos :: nat

definition BytesIO :: bytesio where
  "BytesIO = \<lparr>content = [], pos = 0\<rparr>"

definition seek :: "nat \<Rightarrow> bytesio \<Rightarrow> bytesio" where
  "seek n b = b\<lparr>pos := n\<rparr>"

text \<open>Writing at the position of the buffer: the bytes there are overwritten.\<close>

definition bytesio_write :: "string \<Rightarrow> bytesio \<Rightarrow> bytesio" where
  "bytesio_write bs b =
     \<lparr>content = take (pos b) (content b) @ replicate (pos b - length (content b)) (CHR 0x00)
                  @ bs @ drop (pos b + length bs) (content b),
      pos = pos b + length bs\<rparr>"

text \<open>The fields of a \<^verbatim>\<open>Response\<close> that the adapter sets; a new one has none set.\<close>

record 'h response =
  encoding :: "string option"
  raw :: "bytesio option"
  resp_url :: "string option"
  resp_request :: "'h request option"
  status_code :: "int option"

definition Response :: "'h response" where
  "Response = \<lparr>encoding = None, raw = None, resp_url = None, resp_request = None,
               status_code = None\<rparr>"

text \<open>
  The code around the adapter, taken as given: \<^verbatim>\<open>urlparse\<close>; the constructor
  \<^verbatim>\<open>pysftp.Connection\<close>, which either raises or opens the session;
  \<^verbatim>\<open>Connection.getfo\<close>, which either raises or yields the bytes of the remote file;
  and \<^verbatim>\<open>dispatch_hook\<close>.
\<close>

record 'h env =
  urlparse :: "string \<Rightarrow> parsed_url"
  Connection :: "string option \<Rightarrow> int \<Rightarrow> string option \<Rightarrow> string option \<Rightarrow> py_error option"
  getfo :: "connection \<Rightarrow> string \<Rightarrow> py_error + string"
  dispatch_hook :: "string \<Rightarrow> 'h \<Rightarrow> 'h response \<Rightarrow> py_error + 'h response"

subsection \<open>Building the response\<close>

definition build_response ::
  "'h env \<Rightarrow> 'h request \<Rightarrow> bytesio \<Rightarrow> string \<Rightarrow> string option \<Rightarrow> state
     \<Rightarrow> (py_error + 'h response) \<times> state" where
  "build_response env request data code enc st =
     (let response = Response;
          response = response\<lparr>encoding := enc\<rparr>;
          response = response\<lparr>raw := Some data\<rparr>;
          response = response\<lparr>resp_url := Some (url request)\<rparr>;
          response = response\<lparr>resp_request := Some request\<rparr>
      in case get_status_code_from_code_response code st of
           (Inl e, st') \<Rightarrow> (Inl e, st')
         | (Inr n, st') \<Rightarrow>
             (let response = response\<lparr>status_code := Some n\<rparr>;
                  response = response\<lparr>raw := map_option (seek 0) (raw response)\<rparr>
              in (dispatch_hook env ''response'' (hooks request) response, st')))"

definition build_binary_response ::
  "'h env \<Rightarrow> 'h request \<Rightarrow> bytesio \<Rightarrow> string \<Rightarrow> state
     \<Rightarrow> (py_error + 'h response) \<times> state" where
  "build_binary_response env request data code st =
     build_response env request data code None st"

subsection \<open>The adapter\<close>

text \<open>\<^verbatim>\<open>self.conn.close()\<close>; without the attribute the access raises.\<close>

definition conn_close :: "state \<Rightarrow> (py_error + unit) \<times> state" where
  "conn_close st =
     (case conn st of
        None \<Rightarrow> (Inl AttributeError, st)
      | Some c \<Rightarrow> (Inr (), st\<lparr>conn := Some (c\<lparr>close_calls := Suc (close_calls c)\<rparr>)\<rparr>))"

text \<open>
  The three verbs without an implementation. The method \<^verbatim>\<open>list\<close> is \<open>list_cmd\<close>
  here, \<open>list\<close> being the type of lists.
\<close>

definition list_cmd :: "string \<Rightarrow> 'h request \<Rightarrow> state \<Rightarrow> (py_error + 'h response option) \<times> state" where
  "list_cmd path request st = (Inl (SystemExit ''LIST not implemented yet''), st)"

definition stor :: "string \<Rightarrow> 'h request \<Rightarrow> state \<Rightarrow> (py_error + 'h response option) \<times> state" where
  "stor path request st = (Inl (SystemExit ''STOR not implemented yet''), st)"

definition nlst :: "string \<Rightarrow> 'h request \<Rightarrow> state \<Rightarrow> (py_error + 'h response option) \<times> state" where
  "nlst path request st = (Inl (SystemExit ''NLST not implemented yet''), st)"

definition failed_get_fmt :: string where
  "failed_get_fmt = ''Failed to GET file '' @ [CHR 0x27] @ ''%s'' @ [CHR 0x27] @ '', errno = %d''"

text \<open>
  The body of the \<^verbatim>\<open>try\<close> in \<^verbatim>\<open>retr\<close>. (The alias \<^verbatim>\<open>release_conn\<close> that \<^verbatim>\<open>retr\<close> gives
  to the buffer's \<^verbatim>\<open>close\<close> is never called in this file and has no counterpart here.)
\<close>

definition retr_try ::
  "'h env \<Rightarrow> string \<Rightarrow> 'h request \<Rightarrow> bytesio \<Rightarrow> state \<Rightarrow> (py_error + 'h response) \<times> state" where
  "retr_try env path request data st =
     (case conn st of
        None \<Rightarrow> (Inl AttributeError, st)
      | Some c \<Rightarrow>
          (case getfo env c path of
             Inl e \<Rightarrow> (Inl e, st)
           | Inr bs \<Rightarrow> build_binary_response env request (bytesio_write bs data) ''226'' st))"

fun errno_arg :: "py_error \<Rightarrow> log_arg" where
  "errno_arg (OSError (Some n)) = IntArg n"
| "errno_arg e = NoneArg"

definition retr ::
  "'h env \<Rightarrow> string \<Rightarrow> 'h request \<Rightarrow> state \<Rightarrow> (py_error + 'h response option) \<times> state" where
  "retr env path request st =
     (let data = BytesIO
      in case (case retr_try env path request data st of
                 (Inr r, st1) \<Rightarrow> (Inr (Some r), st1)
               | (Inl e, st1) \<Rightarrow>
                   if is_os_error e
                   then (Inr None, log_warning failed_get_fmt [StrArg path, errno_arg e] st1)
                   else (Inl e, st1)) of
           (Inl e, st2) \<Rightarrow> (Inl e, st2)
         | (Inr response, st2) \<Rightarrow>
             (case conn_close st2 of
                (Inl e, st3) \<Rightarrow> (Inl e, st3)
              | (Inr u, st3) \<Rightarrow> (Inr response, st3)))"

text \<open>The bound methods stored in the table of verbs.\<close>

datatype handler = M_list | M_retr | M_stor | M_nlst

definition func_table :: "(string \<times> handler) list" where
  "func_table =
     [(''LIST'', M_list), (''RETR'', M_retr), (''STOR'', M_stor), (''NLST'', M_nlst),
      (''GET'', M_retr)]"

fun invoke ::
  "handler \<Rightarrow> 'h env \<Rightarrow> string \<Rightarrow> 'h request \<Rightarrow> state
     \<Rightarrow> (py_error + 'h response option) \<times> state" where
  "invoke M_list env path request st = list_cmd path request st"
| "invoke M_retr env path request st = retr env path request st"
| "invoke M_stor env path request st = stor path request st"
| "invoke M_nlst env path request st = nlst path request st"

text \<open>\<^verbatim>\<open>parsed.port or 22\<close>: an absent port and the port 0 both give 22.\<close>

definition port_or_22 :: "int option \<Rightarrow> int" where
  "port_or_22 p = (case p of None \<Rightarrow> 22 | Some n \<Rightarrow> if n = 0 then 22 else n)"

definition send ::
  "'h env \<Rightarrow> 'h request \<Rightarrow> state \<Rightarrow> (py_error + 'h response option) \<times> state" where
  "send env request st =
     (let parsed = urlparse env (url request);
          path = p_path parsed
      in if path = [] then (Inl IndexError, st)
         else
           (let path = (if hd path = CHR ''/'' then tl path else path);
                port = port_or_22 (p_port parsed)
            in case Connection env (p_hostname parsed) port (p_username parsed)
                      (p_password parsed) of
                 Some e \<Rightarrow> (Inl e, st)
               | None \<Rightarrow>
                   (let st = st\<lparr>conn := Some \<lparr>c_hostname = p_hostname parsed, c_port = port,
                                   c_username = p_username parsed,
                                   c_password = p_password parsed, close_calls = 0\<rparr>\<rparr>
                    in case map_of func_table (method request) of
                         None \<Rightarrow> (Inl (KeyError (method request)), st)
                       | Some h \<Rightarrow> invoke h env path request st)))"

definition close :: "state \<Rightarrow> state" where
  "close st = st"

subsection \<open>A caller that catches\<close>

text \<open>
  What \<^verbatim>\<open>send\<close> raises reaches its caller as an exception like any other, and the
  caller may wrap the call in a \<^verbatim>\<open>try\<close> statement. \<open>try_except\<close> is that statement
  with one \<^verbatim>\<open>except\<close> clause: the class test of the clause, the body and the handler.
  \<open>is_exception\<close> is the class test of \<^verbatim>\<open>except Exception\<close>: \<^verbatim>\<open>SystemExit\<close> derives from
  \<^verbatim>\<open>BaseException\<close> only, every other error of the model is an \<^verbatim>\<open>Exception\<close>
  (\<open>OtherError\<close> stands for the exceptions of the libraries, such as the SSH
  errors of the session). \<open>is_system_exit\<close> is the test of \<^verbatim>\<open>except SystemExit\<close>.
\<close>

fun is_exception :: "py_error \<Rightarrow> bool" where
  "is_exception (SystemExit msg) = False"
| "is_exception e = True"

fun is_system_exit :: "py_error \<Rightarrow> bool" where
  "is_system_exit (SystemExit msg) = True"
| "is_system_exit e = False"

definition try_except ::
  "(py_error \<Rightarrow> bool) \<Rightarrow> (state \<Rightarrow> (py_error + 'a) \<times> state)
     \<Rightarrow> (py_error \<Rightarrow> state \<Rightarrow> (py_error + 'a) \<times> state) \<Rightarrow> state
     \<Rightarrow> (py_error + 'a) \<times> state" where
  "try_except cls body handler st =
     (case body st of
        (Inl e, st') \<Rightarrow> if cls e then handler e st' else (Inl e, st')
      | (Inr v, st') \<Rightarrow> (Inr v, st'))"

subsection \<open>A concrete setting\<close>

text \<open>
  One server for evaluating the model: the host holds the file
  \<^verbatim>\<open>pkgs/repodata.json\<close>, any other path fails with errno 2, the session always
  opens, and no hook is registered, so that hook dispatch returns the response as
  it is. The URL \<^verbatim>\<open>sftp://user@host\<close> has the empty path.
\<close>

definition example_env :: "unit env" where
  "example_env =
     \<lparr>urlparse = (\<lambda>u. \<lparr>p_hostname = Some ''host'', p_port = None,
                         p_username = Some ''user'', p_password = None,
                         p_path = (if u = ''sftp://user@host'' then []
                                   else ''/pkgs/repodata.json'')\<rparr>),
      Connection = (\<lambda>host port user pw. None),
      getfo = (\<lambda>c path. if path = ''pkgs/repodata.json'' then Inr ''{}''
                          else Inl (OSError (Some 2))),
      dispatch_hook = (\<lambda>key hs r. Inr r)\<rparr>"

definition example_request :: "string \<Rightarrow> unit request" where
  "example_request verb =
     \<lparr>url = ''sftp://user@host/pkgs/repodata.json'', method = verb, hooks = ()\<rparr>"

definition example_conn :: connection where
  "example_conn =
     \<lparr>c_hostname = Some ''host'', c_port = 22, c_username = Some ''user'',
      c_password = None, close_calls = 0\<rparr>"


section \<open>Properties\<close>

subsection \<open>Splitting a text into lines and tokens\<close>

lemma split_sep_Nil: "split_sep sep [] = [[]]"
  by (simp add: split_sep.simps)

lemma split_sep_Cons:
  "split_sep sep (c # cs) =
     (if c = sep then [] # split_sep sep cs
      else (c # hd (split_sep sep cs)) # tl (split_sep sep cs))"
proof (cases "c = sep")
  case True
  then show ?thesis
    by (subst split_sep.simps) simp
next
  case False
  show ?thesis
  proof (cases "dropWhile (\<lambda>x. x \<noteq> sep) cs")
    case Nil
    then have "split_sep sep cs = [cs]"
      by (subst split_sep.simps) (simp only: list.simps)
    moreover have "dropWhile (\<lambda>x. x \<noteq> sep) (c # cs) = []"
      using False Nil by simp
    then have "split_sep sep (c # cs) = [c # cs]"
      by (subst split_sep.simps) (simp only: list.simps)
    ultimately show ?thesis
      using False by simp
  next
    case (Cons x r)
    then have "split_sep sep cs = takeWhile (\<lambda>x. x \<noteq> sep) cs # split_sep sep r"
      by (subst split_sep.simps) (simp only: list.simps)
    moreover have "dropWhile (\<lambda>x. x \<noteq> sep) (c # cs) = x # r"
      using False Cons by simp
    then have "split_sep sep (c # cs) = (c # takeWhile (\<lambda>x. x \<noteq> sep) cs) # split_sep sep r"
      using False by (subst split_sep.simps) simp
    ultimately show ?thesis
      using False by simp
  qed
qed

lemma split_sep_not_Nil: "split_sep sep s \<noteq> []"
  by (induction s) (simp_all add: split_sep_Nil split_sep_Cons)

lemma split_sep_append: "split_sep sep (a @ sep # b) = split_sep sep a @ split_sep sep b"
proof (induction a)
  case Nil
  show ?case by (simp add: split_sep_Nil split_sep_Cons)
next
  case (Cons c a)
  have "split_sep sep a \<noteq> []" by (rule split_sep_not_Nil)
  with Cons show ?case
    by (simp add: split_sep_Cons)
qed

lemma split_sep_no_sep: "sep \<notin> set l \<Longrightarrow> split_sep sep l = [l]"
  by (induction l) (auto simp: split_sep_Nil split_sep_Cons)

lemma split_sep_replicate: "split_sep sep (replicate k sep) = replicate (Suc k) []"
  by (induction k) (simp_all add: split_sep_Nil split_sep_Cons)

lemma no_valid_line_iff:
  "filter (\<lambda>line. line \<noteq> []) (split_sep sep s) = [] \<longleftrightarrow> set s \<subseteq> {sep}"
  by (induction s) (simp_all add: split_sep_Nil split_sep_Cons)

lemma valid_lines_end:
  assumes "sep \<notin> set l" and "l \<noteq> []"
  shows "filter (\<lambda>line. line \<noteq> []) (split_sep sep (l @ replicate k sep)) = [l]"
proof (cases k)
  case 0
  with assms show ?thesis by (simp add: split_sep_no_sep)
next
  case (Suc j)
  then have "l @ replicate k sep = l @ sep # replicate j sep" by simp
  with assms show ?thesis
    by (simp add: split_sep_append split_sep_no_sep split_sep_replicate del: replicate_Suc)
qed

lemma py_last_valid_line:
  assumes "sep \<notin> set l" and "l \<noteq> []"
  shows "py_last (filter (\<lambda>line. line \<noteq> []) (split_sep sep (a @ sep # l @ replicate k sep))) = Inr l"
  using valid_lines_end [OF assms, of k] by (simp add: split_sep_append py_last_def)

lemma py_last_single_line:
  assumes "sep \<notin> set l" and "l \<noteq> []"
  shows "py_last (filter (\<lambda>line. line \<noteq> []) (split_sep sep (l @ replicate k sep))) = Inr l"
  using valid_lines_end [OF assms, of k] by (simp add: py_last_def)

lemma py_split_token:
  assumes "\<forall>c\<in>set ds. \<not> py_isspace c" and "ds \<noteq> []" and "py_isspace w"
  shows "py_split (ds @ w # rest) = ds # py_split rest"
proof -
  from assms(2) obtain c cs where ds: "ds = c # cs" by (cases ds) auto
  have tk: "takeWhile (\<lambda>x. \<not> py_isspace x) (cs @ w # rest) = cs"
    using assms(1,3) ds by (simp add: takeWhile_tail)
  have dr: "dropWhile (\<lambda>x. \<not> py_isspace x) (cs @ w # rest) = w # rest"
    using assms(1,3) ds by (simp add: dropWhile_append3)
  show ?thesis
    using assms(1,3) by (simp add: ds tk dr)
qed

subsection \<open>Reading an integer\<close>

lemma is_digit_not_space: "is_digit c \<Longrightarrow> \<not> py_isspace c \<and> \<not> int_isspace c"
  by (auto simp: is_digit_def py_isspace_def int_isspace_def Let_def)

lemma is_digit_not_sign: "is_digit c \<Longrightarrow> c \<noteq> CHR ''+'' \<and> c \<noteq> CHR ''-'' \<and> c \<noteq> CHR ''_''"
  by (auto simp: is_digit_def)

lemma py_int_three_digits:
  assumes "is_digit a" and "is_digit b" and "is_digit c"
  shows "py_int [a, b, c] = Inr (100 * digit_val a + 10 * digit_val b + digit_val c)"
  using assms is_digit_not_space [of a] is_digit_not_space [of c] is_digit_not_sign [of a]
  by (simp add: py_int_def strip_int_space_def parse_signed_def)

subsection \<open>The status-code extractor\<close>

lemma py_split_Nil_iff: "py_split s = [] \<longleftrightarrow> (\<forall>c\<in>set s. py_isspace c)"
  by (induction s rule: py_split.induct) auto

lemma is_digit_not_NL: "is_digit c \<Longrightarrow> c \<noteq> NL"
  by (auto simp: is_digit_def NL_def)

lemma space_is_space: "py_isspace (CHR '' '')"
  by (simp add: py_isspace_def)

lemma status_line:
  assumes "is_digit a" and "is_digit b" and "is_digit c"
    and "py_last (filter (\<lambda>line. line \<noteq> []) (split_sep NL code)) = Inr ([a, b, c] @ CHR '' '' # text)"
    and "take 3 code = [a, b, c]"
  shows "get_status_code_from_code_response code st =
           (Inr (100 * digit_val a + 10 * digit_val b + digit_val c), st)"
proof -
  have "\<forall>x\<in>set [a, b, c]. \<not> py_isspace x"
    using assms(1-3) by (simp add: is_digit_not_space)
  then have "py_split ([a, b, c] @ CHR '' '' # text) = [a, b, c] # py_split text"
    by (rule py_split_token) (simp_all add: space_is_space)
  then have "py_first (py_split ([a, b, c] @ CHR '' '' # text)) = Inr [a, b, c]"
    by (simp add: py_first_def)
  then show ?thesis
    using assms(4,5) py_int_three_digits [OF assms(1-3)]
    by (simp add: get_status_code_from_code_response_def)
qed

text \<open>
  Claim C1. When the integer read from the first token of the last non-empty line
  differs from the integer read from the first three characters of the text,
  \<^verbatim>\<open>get_status_code_from_code_response\<close> does not raise: it returns the value of the
  last line and logs one warning, whose arguments are the text and the two values.
\<close>

theorem conflicting_codes_last_line_wins:
  assumes "py_last (filter (\<lambda>line. line \<noteq> []) (split_sep NL code)) = Inr line"
    and "py_first (py_split line) = Inr token"
    and "py_int token = Inr n"
    and "py_int (take 3 code) = Inr m"
    and "n \<noteq> m"
  shows "get_status_code_from_code_response code st =
           (Inr n, st\<lparr>logged := logged st @
              [LogWarning inconsistent_fmt [StrArg code, IntArg n, IntArg m]]\<rparr>)"
  using assms by (simp add: get_status_code_from_code_response_def log_warning_def)

theorem conflicting_codes_last_line_wins_witness:
  "get_status_code_from_code_response
     (''200-File successfully transferred'' @ [NL] @ ''226 0.000 seconds'')
     \<lparr>conn = None, logged = []\<rparr> =
   (Inr 226,
    \<lparr>conn = None,
     logged = [LogWarning inconsistent_fmt
       [StrArg (''200-File successfully transferred'' @ [NL] @ ''226 0.000 seconds''),
        IntArg 226, IntArg 200]]\<rparr>)"
proof -
  have h1: "py_last (filter (\<lambda>line. line \<noteq> [])
              (split_sep NL (''200-File successfully transferred'' @ [NL] @ ''226 0.000 seconds'')))
            = Inr ''226 0.000 seconds''"
    by code_simp
  have h2: "py_first (py_split ''226 0.000 seconds'') = Inr ''226''"
    by code_simp
  have h3: "py_int ''226'' = Inr 226"
    by code_simp
  have h4: "py_int (take 3 (''200-File successfully transferred'' @ [NL] @ ''226 0.000 seconds''))
            = Inr 200"
    by code_simp
  have h5: "(226::int) \<noteq> 200"
    by simp
  show ?thesis
    using conflicting_codes_last_line_wins [OF h1 h2 h3 h4 h5, of "\<lparr>conn = None, logged = []\<rparr>"]
    by simp
qed

text \<open>
  Claim C2. A text \<^verbatim>\<open>"<3 digits> <text>"\<close> of one line, and a reply of several lines
  in the form of RFC 959 (first line: the code and a hyphen; last line: the same code
  and a space), both give the integer value of the code, with nothing logged; the
  last line may be followed by ends of line. In particular \<^verbatim>\<open>"200 Welcome"\<close> gives
  200 and \<^verbatim>\<open>"226-File successfully transferred\n226 0.000 seconds"\<close> gives 226.
\<close>

theorem matching_codes_give_the_code:
  assumes "is_digit a" and "is_digit b" and "is_digit c" and "NL \<notin> set text"
  shows
    "get_status_code_from_code_response ([a, b, c] @ CHR '' '' # text @ replicate k NL) st =
       (Inr (100 * digit_val a + 10 * digit_val b + digit_val c), st)
     \<and> get_status_code_from_code_response
         ([a, b, c] @ CHR ''-'' # body @ NL # [a, b, c] @ CHR '' '' # text @ replicate k NL) st =
       (Inr (100 * digit_val a + 10 * digit_val b + digit_val c), st)
     \<and> get_status_code_from_code_response ''200 Welcome'' st = (Inr 200, st)
     \<and> get_status_code_from_code_response
         (''226-File successfully transferred'' @ [NL] @ ''226 0.000 seconds'') st =
       (Inr 226, st)"
proof -
  let ?l = "[a, b, c] @ CHR '' '' # text"
  have nl: "NL \<notin> set ?l"
    using assms is_digit_not_NL [of a] is_digit_not_NL [of b] is_digit_not_NL [of c]
    by (auto simp: NL_def)
  have ne: "?l \<noteq> []"
    by simp
  have single: "get_status_code_from_code_response (?l @ replicate k NL) st =
       (Inr (100 * digit_val a + 10 * digit_val b + digit_val c), st)"
    using py_last_single_line [OF nl ne, of k]
    by (intro status_line assms) simp_all
  have multi: "get_status_code_from_code_response
         (([a, b, c] @ CHR ''-'' # body) @ NL # ?l @ replicate k NL) st =
       (Inr (100 * digit_val a + 10 * digit_val b + digit_val c), st)"
    using py_last_valid_line [OF nl ne, of "[a, b, c] @ CHR ''-'' # body" k]
    by (intro status_line assms) simp_all
  have d2: "is_digit CHR ''2''" and d0: "is_digit CHR ''0''" and d6: "is_digit CHR ''6''"
    by (simp_all add: is_digit_def)
  have "get_status_code_from_code_response ''200 Welcome'' st = (Inr 200, st)"
  proof -
    have "py_last (filter (\<lambda>line. line \<noteq> []) (split_sep NL ''200 Welcome'')) = Inr ''200 Welcome''"
      by code_simp
    then show ?thesis
      using status_line [OF d2 d0 d0, of "''200 Welcome''" "''Welcome''" st]
      by (simp add: digit_val_def)
  qed
  moreover have "get_status_code_from_code_response
         (''226-File successfully transferred'' @ [NL] @ ''226 0.000 seconds'') st = (Inr 226, st)"
  proof -
    have "py_last (filter (\<lambda>line. line \<noteq> [])
            (split_sep NL (''226-File successfully transferred'' @ [NL] @ ''226 0.000 seconds'')))
          = Inr ''226 0.000 seconds''"
      by code_simp
    then show ?thesis
      using status_line [OF d2 d2 d6,
          of "''226-File successfully transferred'' @ [NL] @ ''226 0.000 seconds''"
             "''0.000 seconds''" st]
      by (simp add: digit_val_def)
  qed
  ultimately show ?thesis
    using single multi by simp
qed

theorem matching_codes_give_the_code_witness:
  "get_status_code_from_code_response (''503 Bad sequence'' @ [NL])
     \<lparr>conn = None, logged = []\<rparr> = (Inr 503, \<lparr>conn = None, logged = []\<rparr>)
   \<and> get_status_code_from_code_response
       (''503-first'' @ [NL] @ ''second'' @ [NL] @ ''503 Bad sequence'' @ [NL])
       \<lparr>conn = None, logged = []\<rparr> = (Inr 503, \<lparr>conn = None, logged = []\<rparr>)"
proof -
  have d5: "is_digit CHR ''5''" and d0: "is_digit CHR ''0''" and d3: "is_digit CHR ''3''"
    by (simp_all add: is_digit_def)
  have nl: "NL \<notin> set ''Bad sequence''"
    by (simp add: NL_def)
  show ?thesis
    using matching_codes_give_the_code [OF d5 d0 d3 nl, of "Suc 0" "\<lparr>conn = None, logged = []\<rparr>"
        "''first'' @ [NL] @ ''second''"]
    by (simp add: digit_val_def)
qed

text \<open>
  Claim C3, as it is stated, fails in both directions. A text shorter than three
  characters is not an error by itself: \<^verbatim>\<open>"5"\<close> gives 5, since \<^verbatim>\<open>code[:3]\<close> is then
  the whole text. And a text whose last non-empty line begins with an integer still
  fails when its first three characters are not an integer.
\<close>

theorem short_text_counterexample:
  "length ''5'' < 3
   \<and> get_status_code_from_code_response ''5'' \<lparr>conn = None, logged = []\<rparr> =
       (Inr 5, \<lparr>conn = None, logged = []\<rparr>)
   \<and> length (''abc'' @ [NL] @ ''226 x'') \<ge> 3
   \<and> py_first (py_split ''226 x'') = Inr ''226'' \<and> py_int ''226'' = Inr 226
   \<and> get_status_code_from_code_response (''abc'' @ [NL] @ ''226 x'') \<lparr>conn = None, logged = []\<rparr> =
       (Inl ValueError, \<lparr>conn = None, logged = []\<rparr>)"
  by code_simp

text \<open>
  Claim C3, amended. \<^verbatim>\<open>get_status_code_from_code_response\<close> raises exactly in these
  cases, and nothing is caught or logged: an IndexError when the text has no
  non-empty line or its last non-empty line is white space only; a ValueError when
  the first token of the last non-empty line, or the first three characters of the
  text (the whole text when it is shorter), is not an integer literal.
\<close>

theorem status_code_failures:
  "(let valid = filter (\<lambda>line. line \<noteq> []) (split_sep NL code);
        result = get_status_code_from_code_response code st
    in (fst result = Inl IndexError \<longleftrightarrow>
          set code \<subseteq> {NL} \<or> (\<forall>c\<in>set (last valid). py_isspace c))
     \<and> (fst result = Inl ValueError \<longleftrightarrow>
          \<not> set code \<subseteq> {NL} \<and> \<not> (\<forall>c\<in>set (last valid). py_isspace c) \<and>
          (py_int (hd (py_split (last valid))) = Inl ValueError \<or>
           py_int (take 3 code) = Inl ValueError))
     \<and> (\<forall>e. fst result = Inl e \<longrightarrow> (e = IndexError \<or> e = ValueError) \<and> snd result = st))"
proof -
  define valid where "valid = filter (\<lambda>line. line \<noteq> []) (split_sep NL code)"
  have int_err: "e = ValueError" if "py_int s = Inl e" for s e
    using that by (auto simp: py_int_def split: option.splits)
  show ?thesis
  proof (cases "valid = []")
    case True
    then have "set code \<subseteq> {NL}"
      using no_valid_line_iff [of NL code] by (simp add: valid_def)
    then show ?thesis
      using True
      by (simp add: valid_def [symmetric] Let_def get_status_code_from_code_response_def py_last_def)
  next
    case False
    then have ne: "\<not> set code \<subseteq> {NL}"
      using no_valid_line_iff [of NL code] by (simp add: valid_def)
    show ?thesis
    proof (cases "py_split (last valid)")
      case Nil
      then have "\<forall>c\<in>set (last valid). py_isspace c"
        by (simp add: py_split_Nil_iff)
      then show ?thesis
        using False Nil
        by (simp add: valid_def [symmetric] Let_def get_status_code_from_code_response_def
              py_last_def py_first_def)
    next
      case (Cons tok more)
      then have nsp: "\<not> (\<forall>c\<in>set (last valid). py_isspace c)"
        using py_split_Nil_iff [of "last valid"] by simp
      note defs = valid_def [symmetric] Let_def get_status_code_from_code_response_def
        py_last_def py_first_def
      show ?thesis
      proof (cases "py_int tok")
        case (Inl e1)
        then have "py_int tok = Inl ValueError"
          using int_err [of tok e1] by simp
        then show ?thesis
          using False Cons ne nsp by (simp add: defs)
      next
        case tok_ok: (Inr n)
        show ?thesis
        proof (cases "py_int (take 3 code)")
          case (Inl e2)
          then have "py_int (take 3 code) = Inl ValueError"
            using int_err [of "take 3 code" e2] by simp
          then show ?thesis
            using False Cons ne nsp tok_ok by (simp add: defs)
        next
          case (Inr m)
          then show ?thesis
            using False Cons ne nsp tok_ok by (simp add: defs)
        qed
      qed
    qed
  qed
qed

theorem status_code_failures_witness:
  "fst (get_status_code_from_code_response (''abc'' @ [NL] @ ''226 x'')
          \<lparr>conn = None, logged = []\<rparr>) = Inl ValueError
   \<and> fst (get_status_code_from_code_response ''   '' \<lparr>conn = None, logged = []\<rparr>)
       = Inl IndexError"
proof -
  have v: "filter (\<lambda>line. line \<noteq> []) (split_sep NL (''abc'' @ [NL] @ ''226 x''))
             = [''abc'', ''226 x'']"
    by code_simp
  have p: "py_int (take 3 (''abc'' @ [NL] @ ''226 x'')) = Inl ValueError"
    by code_simp
  have n: "\<not> set (''abc'' @ [NL] @ ''226 x'') \<subseteq> {NL}"
    by (simp add: NL_def)
  have w: "\<not> (\<forall>c\<in>set ''226 x''. py_isspace c)"
    by (simp add: py_isspace_def)
  have first: "fst (get_status_code_from_code_response (''abc'' @ [NL] @ ''226 x'')
          \<lparr>conn = None, logged = []\<rparr>) = Inl ValueError"
    using status_code_failures [of "''abc'' @ [NL] @ ''226 x''" "\<lparr>conn = None, logged = []\<rparr>"]
      v p n w
    by (simp add: Let_def)
  have v': "filter (\<lambda>line. line \<noteq> []) (split_sep NL ''   '') = [''   '']"
    by code_simp
  have w': "\<forall>c\<in>set ''   ''. py_isspace c"
    by (simp add: py_isspace_def)
  have second: "fst (get_status_code_from_code_response ''   '' \<lparr>conn = None, logged = []\<rparr>)
       = Inl IndexError"
    using status_code_failures [of "''   ''" "\<lparr>conn = None, logged = []\<rparr>"] v' w'
    by (simp add: Let_def)
  show ?thesis
    using first second by simp
qed

subsection \<open>The handlers and \<^verbatim>\<open>send\<close>\<close>

lemma status_code_226: "get_status_code_from_code_response ''226'' st = (Inr 226, st)"
proof -
  have "py_last (filter (\<lambda>line. line \<noteq> []) (split_sep NL ''226'')) = Inr ''226''"
    by code_simp
  moreover have "py_first (py_split ''226'') = Inr ''226''"
    by code_simp
  moreover have "py_int ''226'' = Inr 226"
    by code_simp
  ultimately show ?thesis
    by (simp add: get_status_code_from_code_response_def)
qed

lemma build_binary_response_226:
  "build_binary_response env request (bytesio_write bs BytesIO) ''226'' st =
     (dispatch_hook env ''response'' (hooks request)
        \<lparr>encoding = None, raw = Some \<lparr>content = bs, pos = 0\<rparr>,
         resp_url = Some (url request), resp_request = Some request,
         status_code = Some 226\<rparr>, st)"
  by (simp add: build_binary_response_def build_response_def status_code_226 Response_def
        bytesio_write_def BytesIO_def seek_def)

lemma retr_fetch_error:
  assumes "conn st = Some c" and "getfo env c path = Inl e"
  shows "retr env path request st =
           (if is_os_error e
            then (Inr None,
                  st\<lparr>conn := Some (c\<lparr>close_calls := Suc (close_calls c)\<rparr>),
                     logged := logged st @ [LogWarning failed_get_fmt [StrArg path, errno_arg e]]\<rparr>)
            else (Inl e, st))"
  using assms by (simp add: retr_def retr_try_def log_warning_def conn_close_def)

lemma retr_fetch_ok:
  assumes "conn st = Some c" and "getfo env c path = Inr bs"
  shows "retr env path request st =
           (case dispatch_hook env ''response'' (hooks request)
                   \<lparr>encoding = None, raw = Some \<lparr>content = bs, pos = 0\<rparr>,
                    resp_url = Some (url request), resp_request = Some request,
                    status_code = Some 226\<rparr> of
              Inr r \<Rightarrow> (Inr (Some r), st\<lparr>conn := Some (c\<lparr>close_calls := Suc (close_calls c)\<rparr>)\<rparr>)
            | Inl e \<Rightarrow>
                if is_os_error e
                then (Inr None,
                      st\<lparr>conn := Some (c\<lparr>close_calls := Suc (close_calls c)\<rparr>),
                         logged := logged st @
                           [LogWarning failed_get_fmt [StrArg path, errno_arg e]]\<rparr>)
                else (Inl e, st))"
  using assms
  by (simp add: retr_def retr_try_def build_binary_response_226 log_warning_def conn_close_def
        split: sum.splits)

lemma retr_returns_closed:
  assumes "conn st = Some c" and "retr env path request st = (Inr r, st')"
  shows "conn st' = Some (c\<lparr>close_calls := Suc (close_calls c)\<rparr>)"
proof (cases "getfo env c path")
  case (Inl e)
  then show ?thesis
    using assms retr_fetch_error [OF assms(1) Inl, of request]
    by (auto split: if_splits)
next
  case (Inr bs)
  then show ?thesis
    using assms retr_fetch_ok [OF assms(1) Inr, of request]
    by (auto split: sum.splits if_splits)
qed

lemma retr_table: "map_of func_table ''RETR'' = Some M_retr" "map_of func_table ''GET'' = Some M_retr"
  by (simp_all add: func_table_def)

lemma func_table_keys:
  "fst ` set func_table = {''LIST'', ''RETR'', ''STOR'', ''NLST'', ''GET''}"
  by (auto simp: func_table_def)

lemma send_reaches_handler:
  assumes "urlparse env (url request) = parsed" and "p_path parsed \<noteq> []"
    and "Connection env (p_hostname parsed) (port_or_22 (p_port parsed)) (p_username parsed)
           (p_password parsed) = None"
  shows "send env request st =
           (let st1 = st\<lparr>conn := Some \<lparr>c_hostname = p_hostname parsed,
                         c_port = port_or_22 (p_port parsed), c_username = p_username parsed,
                         c_password = p_password parsed, close_calls = 0\<rparr>\<rparr>
            in case map_of func_table (method request) of
                 None \<Rightarrow> (Inl (KeyError (method request)), st1)
               | Some h \<Rightarrow>
                   invoke h env (if hd (p_path parsed) = CHR ''/'' then tl (p_path parsed)
                                 else p_path parsed) request st1)"
  using assms by (simp add: send_def Let_def)


lemma send_empty_path:
  assumes "p_path (urlparse env (url request)) = []"
  shows "send env request st = (Inl IndexError, st)"
  using assms by (simp add: send_def Let_def)

lemma invoke_keeps_session:
  assumes "conn st = Some c"
  shows "\<exists>c'. conn (snd (invoke h env path request st)) = Some c'
              \<and> c_hostname c' = c_hostname c \<and> c_port c' = c_port c"
proof (cases h)
  case M_retr
  show ?thesis
  proof (cases "getfo env c path")
    case (Inl e)
    then show ?thesis
      using assms retr_fetch_error [OF assms Inl, of request] M_retr by simp
  next
    case (Inr bs)
    then show ?thesis
      using assms retr_fetch_ok [OF assms Inr, of request] M_retr
      by (simp split: sum.splits)
  qed
qed (use assms in \<open>simp_all add: list_cmd_def stor_def nlst_def\<close>)

text \<open>
  The \<^verbatim>\<open>try\<close> of \<^verbatim>\<open>retr\<close> is \<open>try_except\<close> with the class test of
  \<^verbatim>\<open>except (OSError, IOError)\<close>; and a body that ends with \<^verbatim>\<open>SystemExit\<close> passes the
  clauses for \<^verbatim>\<open>Exception\<close> and \<^verbatim>\<open>OSError\<close> and is caught by a clause for \<^verbatim>\<open>SystemExit\<close>.
\<close>

lemma retr_is_try_except:
  "retr env path request st =
     (case try_except is_os_error
             (\<lambda>s. case retr_try env path request BytesIO s of
                    (Inr r, s1) \<Rightarrow> (Inr (Some r), s1)
                  | (Inl e, s1) \<Rightarrow> (Inl e, s1))
             (\<lambda>e s. (Inr None, log_warning failed_get_fmt [StrArg path, errno_arg e] s)) st of
        (Inl e, st2) \<Rightarrow> (Inl e, st2)
      | (Inr response, st2) \<Rightarrow>
          (case conn_close st2 of
             (Inl e, st3) \<Rightarrow> (Inl e, st3)
           | (Inr u, st3) \<Rightarrow> (Inr response, st3)))"
  by (simp add: retr_def try_except_def split: prod.splits sum.splits)

lemma try_except_system_exit:
  assumes "fst (body st) = Inl (SystemExit msg)"
  shows "try_except is_exception body handler st = body st
       \<and> try_except is_os_error body handler st = body st
       \<and> try_except is_system_exit body handler st = handler (SystemExit msg) (snd (body st))"
  using assms by (cases "body st") (simp add: try_except_def)

text \<open>
  Claim C4 says that the call ends the calling process and is nothing the caller
  can recover from. The handlers only raise \<^verbatim>\<open>SystemExit\<close>: for a STOR request \<^verbatim>\<open>send\<close>
  ends with that exception, and a caller whose \<^verbatim>\<open>try\<close> has a clause for \<^verbatim>\<open>SystemExit\<close>
  catches it and goes on, here with \<^verbatim>\<open>None\<close> as its result and the session still
  open. Nor is \<^verbatim>\<open>SystemExit\<close> what every STOR request ends with: when the constructor
  of the session raises, \<^verbatim>\<open>send\<close> ends with that error and the handler is not called.
\<close>

theorem system_exit_is_catchable:
  "send example_env (example_request ''STOR'') \<lparr>conn = None, logged = []\<rparr> =
     (Inl (SystemExit ''STOR not implemented yet''),
      \<lparr>conn = Some example_conn, logged = []\<rparr>)
   \<and> try_except is_system_exit (send example_env (example_request ''STOR''))
       (\<lambda>e s. (Inr None, s)) \<lparr>conn = None, logged = []\<rparr> =
     (Inr None, \<lparr>conn = Some example_conn, logged = []\<rparr>)
   \<and> send (example_env\<lparr>Connection := \<lambda>host port user pw. Some (OtherError ''SSHException'')\<rparr>)
       (example_request ''STOR'') \<lparr>conn = None, logged = []\<rparr> =
     (Inl (OtherError ''SSHException''), \<lparr>conn = None, logged = []\<rparr>)"
proof -
  have s: "send example_env (example_request ''STOR'') \<lparr>conn = None, logged = []\<rparr> =
     (Inl (SystemExit ''STOR not implemented yet''),
      \<lparr>conn = Some example_conn, logged = []\<rparr>)"
    by (simp add: send_def example_env_def example_request_def example_conn_def port_or_22_def
          func_table_def stor_def)
  have c: "try_except is_system_exit (send example_env (example_request ''STOR''))
       (\<lambda>e s. (Inr None, s)) \<lparr>conn = None, logged = []\<rparr> =
     (Inr None, \<lparr>conn = Some example_conn, logged = []\<rparr>)"
    by (simp add: try_except_def s)
  have f: "send (example_env\<lparr>Connection := \<lambda>host port user pw. Some (OtherError ''SSHException'')\<rparr>)
       (example_request ''STOR'') \<lparr>conn = None, logged = []\<rparr> =
     (Inl (OtherError ''SSHException''), \<lparr>conn = None, logged = []\<rparr>)"
    by (simp add: send_def example_env_def example_request_def)
  show ?thesis
    using s c f by simp
qed

text \<open>
  Claim C4, amended. The table of verbs sends STOR, LIST and NLST to handlers that
  raise \<^verbatim>\<open>SystemExit\<close> with the message \<^verbatim>\<open>"<VERB> not implemented yet"\<close>, whatever the
  path, the request and the state. \<^verbatim>\<open>send\<close> never returns a response for such a
  request. Once \<^verbatim>\<open>send\<close> reaches the dispatch (the path is not empty and the session
  opens), it ends with that \<^verbatim>\<open>SystemExit\<close>, which no clause for \<^verbatim>\<open>Exception\<close> or for
  \<^verbatim>\<open>OSError\<close> in a caller catches, and which a clause for \<^verbatim>\<open>SystemExit\<close> does catch: the
  process ends only when no caller has such a clause.
\<close>

theorem unimplemented_verbs_exit:
  assumes "m = ''STOR'' \<or> m = ''LIST'' \<or> m = ''NLST''"
  shows "(\<exists>h. map_of func_table m = Some h \<and>
              invoke h env path request st =
                (Inl (SystemExit (m @ '' not implemented yet'')), st))
       \<and> (method request = m \<longrightarrow> (\<forall>r st'. send env request st \<noteq> (Inr r, st')))
       \<and> (method request = m
            \<and> p_path (urlparse env (url request)) \<noteq> []
            \<and> Connection env (p_hostname (urlparse env (url request)))
                 (port_or_22 (p_port (urlparse env (url request))))
                 (p_username (urlparse env (url request)))
                 (p_password (urlparse env (url request))) = None
          \<longrightarrow> fst (send env request st) = Inl (SystemExit (m @ '' not implemented yet''))
            \<and> try_except is_exception (send env request) handler st = send env request st
            \<and> try_except is_os_error (send env request) handler st = send env request st
            \<and> try_except is_system_exit (send env request) handler st =
                handler (SystemExit (m @ '' not implemented yet'')) (snd (send env request st)))"
proof -
  have handler: "\<exists>h. map_of func_table m = Some h \<and>
      (\<forall>p s. invoke h env p request s = (Inl (SystemExit (m @ '' not implemented yet'')), s))"
    using assms by (auto simp: func_table_def list_cmd_def stor_def nlst_def)
  then obtain h where h: "map_of func_table m = Some h"
    and inv: "\<And>p s. invoke h env p request s = (Inl (SystemExit (m @ '' not implemented yet'')), s)"
    by blast
  have never: "send env request st \<noteq> (Inr r, st')" if "method request = m" for r st'
    using that h inv
    by (auto simp: send_def Let_def split: option.splits)
  have reached: "fst (send env request st) = Inl (SystemExit (m @ '' not implemented yet''))"
    if "method request = m" and "p_path (urlparse env (url request)) \<noteq> []"
      and "Connection env (p_hostname (urlparse env (url request)))
                 (port_or_22 (p_port (urlparse env (url request))))
                 (p_username (urlparse env (url request)))
                 (p_password (urlparse env (url request))) = None"
    using send_reaches_handler [OF refl that(2,3), of st] that(1) h inv
    by (simp add: Let_def)
  show ?thesis
  proof (intro conjI)
    show "\<exists>h. map_of func_table m = Some h \<and>
              invoke h env path request st =
                (Inl (SystemExit (m @ '' not implemented yet'')), st)"
      using h inv by (intro exI [of _ h]) simp
    show "method request = m \<longrightarrow> (\<forall>r st'. send env request st \<noteq> (Inr r, st'))"
      using never by simp
    show "method request = m
            \<and> p_path (urlparse env (url request)) \<noteq> []
            \<and> Connection env (p_hostname (urlparse env (url request)))
                 (port_or_22 (p_port (urlparse env (url request))))
                 (p_username (urlparse env (url request)))
                 (p_password (urlparse env (url request))) = None
          \<longrightarrow> fst (send env request st) = Inl (SystemExit (m @ '' not implemented yet''))
            \<and> try_except is_exception (send env request) handler st = send env request st
            \<and> try_except is_os_error (send env request) handler st = send env request st
            \<and> try_except is_system_exit (send env request) handler st =
                handler (SystemExit (m @ '' not implemented yet'')) (snd (send env request st))"
      using reached try_except_system_exit [of "send env request" st "m @ '' not implemented yet''" handler]
      by simp
  qed
qed

theorem unimplemented_verbs_exit_witness:
  "fst (send example_env (example_request ''STOR'') \<lparr>conn = None, logged = []\<rparr>) =
     Inl (SystemExit ''STOR not implemented yet'')
   \<and> try_except is_exception (send example_env (example_request ''STOR''))
       (\<lambda>e s. (Inr None, s)) \<lparr>conn = None, logged = []\<rparr> =
     send example_env (example_request ''STOR'') \<lparr>conn = None, logged = []\<rparr>"
  using unimplemented_verbs_exit [of "''STOR''" example_env "''pkgs/repodata.json''"
      "example_request ''STOR''" "\<lparr>conn = None, logged = []\<rparr>" "\<lambda>e s. (Inr None, s)"]
  by (simp add: example_env_def example_request_def)

text \<open>
  Claim C5. RETR and GET are both handled by \<^verbatim>\<open>retr\<close>. When the fetch raises an
  \<^verbatim>\<open>OSError\<close> with an errno, \<^verbatim>\<open>retr\<close> returns \<^verbatim>\<open>None\<close>, logs one warning with the path and
  the errno, and closes the connection once. When the fetch succeeds and hook
  dispatch returns a response, the connection is closed once as well; and whenever
  \<^verbatim>\<open>retr\<close> returns at all, \<^verbatim>\<open>close\<close> has been called exactly once more than before.
\<close>

theorem retr_os_error_gives_None:
  assumes "method request = ''RETR'' \<or> method request = ''GET''"
    and "conn st = Some c"
  shows "map_of func_table (method request) = Some M_retr
      \<and> (\<forall>n. getfo env c path = Inl (OSError (Some n)) \<longrightarrow>
            invoke M_retr env path request st =
              (Inr None,
               st\<lparr>conn := Some (c\<lparr>close_calls := Suc (close_calls c)\<rparr>),
                  logged := logged st @
                    [LogWarning failed_get_fmt [StrArg path, IntArg n]]\<rparr>))
      \<and> (\<forall>bs r. getfo env c path = Inr bs \<and>
              dispatch_hook env ''response'' (hooks request)
                \<lparr>encoding = None, raw = Some \<lparr>content = bs, pos = 0\<rparr>,
                 resp_url = Some (url request), resp_request = Some request,
                 status_code = Some 226\<rparr> = Inr r \<longrightarrow>
            invoke M_retr env path request st =
              (Inr (Some r), st\<lparr>conn := Some (c\<lparr>close_calls := Suc (close_calls c)\<rparr>)\<rparr>))
      \<and> (\<forall>r st'. invoke M_retr env path request st = (Inr r, st') \<longrightarrow>
            conn st' = Some (c\<lparr>close_calls := Suc (close_calls c)\<rparr>))"
proof (intro conjI allI impI)
  show "map_of func_table (method request) = Some M_retr"
    using assms(1) retr_table by auto
next
  fix n
  assume "getfo env c path = Inl (OSError (Some n))"
  then show "invoke M_retr env path request st =
              (Inr None,
               st\<lparr>conn := Some (c\<lparr>close_calls := Suc (close_calls c)\<rparr>),
                  logged := logged st @
                    [LogWarning failed_get_fmt [StrArg path, IntArg n]]\<rparr>)"
    using retr_fetch_error [OF assms(2), of env path _ request] by simp
next
  fix bs r
  assume "getfo env c path = Inr bs \<and>
              dispatch_hook env ''response'' (hooks request)
                \<lparr>encoding = None, raw = Some \<lparr>content = bs, pos = 0\<rparr>,
                 resp_url = Some (url request), resp_request = Some request,
                 status_code = Some 226\<rparr> = Inr r"
  then show "invoke M_retr env path request st =
              (Inr (Some r), st\<lparr>conn := Some (c\<lparr>close_calls := Suc (close_calls c)\<rparr>)\<rparr>)"
    using retr_fetch_ok [OF assms(2), of env path bs request] by simp
next
  fix r st'
  assume "invoke M_retr env path request st = (Inr r, st')"
  then show "conn st' = Some (c\<lparr>close_calls := Suc (close_calls c)\<rparr>)"
    using retr_returns_closed [OF assms(2), of env path request r st'] by simp
qed

theorem retr_os_error_gives_None_witness:
  "invoke M_retr example_env ''missing'' (example_request ''GET'')
     \<lparr>conn = Some example_conn, logged = []\<rparr> =
   (Inr None,
    \<lparr>conn = Some (example_conn\<lparr>close_calls := 1\<rparr>),
     logged = [LogWarning failed_get_fmt [StrArg ''missing'', IntArg 2]]\<rparr>)"
proof -
  have m: "method (example_request ''GET'') = ''RETR'' \<or> method (example_request ''GET'') = ''GET''"
    by (simp add: example_request_def)
  have c: "conn \<lparr>conn = Some example_conn, logged = []\<rparr> = Some example_conn"
    by simp
  have g: "getfo example_env example_conn ''missing'' = Inl (OSError (Some 2))"
    by (simp add: example_env_def)
  show ?thesis
    using retr_os_error_gives_None [OF m c, of example_env "''missing''"] g
    by (simp add: example_conn_def)
qed



text \<open>
  Claim C7 says that a path without a leading \<^verbatim>\<open>/\<close> is passed on unchanged. The
  empty path has no leading \<^verbatim>\<open>/\<close>, yet \<^verbatim>\<open>send\<close> reads \<^verbatim>\<open>path[0]\<close> and raises before any
  session is opened and before any handler is called. (For a path that is not empty,
  \<open>send_reaches_handler\<close> above shows the handler receives the path without one leading
  \<^verbatim>\<open>/\<close>, or the path itself when it has none.)
\<close>

theorem empty_path_raises:
  "send example_env \<lparr>url = ''sftp://user@host'', method = ''RETR'', hooks = ()\<rparr>
     \<lparr>conn = None, logged = []\<rparr> = (Inl IndexError, \<lparr>conn = None, logged = []\<rparr>)"
  by (simp add: send_def example_env_def)



text \<open>
  Claim C9. The keys of the table of verbs are exactly LIST, RETR, STOR, NLST and
  GET; every character of every key is an upper-case letter; GET and RETR have the
  same handler, \<^verbatim>\<open>retr\<close>; and when the parsed URL has no port, the session that
  \<^verbatim>\<open>send\<close> opens and stores in \<^verbatim>\<open>conn\<close> is on port 22 of the parsed host.
\<close>

theorem verb_table_and_default_port:
  "dom (map_of func_table) = {''LIST'', ''RETR'', ''STOR'', ''NLST'', ''GET''}
   \<and> (\<forall>k\<in>dom (map_of func_table). \<forall>c\<in>set k. 65 \<le> (of_char c :: nat) \<and> (of_char c :: nat) \<le> 90)
   \<and> map_of func_table ''GET'' = Some M_retr \<and> map_of func_table ''RETR'' = Some M_retr
   \<and> (p_port (urlparse env (url request)) = None
        \<and> p_path (urlparse env (url request)) \<noteq> []
        \<and> Connection env (p_hostname (urlparse env (url request))) 22
             (p_username (urlparse env (url request)))
             (p_password (urlparse env (url request))) = None
      \<longrightarrow> (\<exists>c. conn (snd (send env request st)) = Some c \<and> c_port c = 22
                \<and> c_hostname c = p_hostname (urlparse env (url request))))"
proof (intro conjI impI)
  show keys: "dom (map_of func_table) = {''LIST'', ''RETR'', ''STOR'', ''NLST'', ''GET''}"
    using func_table_keys by (simp add: dom_map_of_conv_image_fst)
  show "\<forall>k\<in>dom (map_of func_table). \<forall>c\<in>set k. 65 \<le> (of_char c :: nat) \<and> (of_char c :: nat) \<le> 90"
    unfolding keys by simp
  show "map_of func_table ''GET'' = Some M_retr" and "map_of func_table ''RETR'' = Some M_retr"
    by (simp_all add: retr_table)
next
  let ?parsed = "urlparse env (url request)"
  assume a: "p_port ?parsed = None \<and> p_path ?parsed \<noteq> []
        \<and> Connection env (p_hostname ?parsed) 22 (p_username ?parsed) (p_password ?parsed) = None"
  then have port: "port_or_22 (p_port ?parsed) = 22"
    by (simp add: port_or_22_def)
  from a have nonempty: "p_path ?parsed \<noteq> []"
    by simp
  from a have opened: "Connection env (p_hostname ?parsed) (port_or_22 (p_port ?parsed))
      (p_username ?parsed) (p_password ?parsed) = None"
    by (simp add: port_or_22_def)
  let ?st1 = "st\<lparr>conn := Some \<lparr>c_hostname = p_hostname ?parsed,
                         c_port = port_or_22 (p_port ?parsed), c_username = p_username ?parsed,
                         c_password = p_password ?parsed, close_calls = 0\<rparr>\<rparr>"
  have s: "send env request st =
           (case map_of func_table (method request) of
                 None \<Rightarrow> (Inl (KeyError (method request)), ?st1)
               | Some h \<Rightarrow>
                   invoke h env (if hd (p_path ?parsed) = CHR ''/'' then tl (p_path ?parsed)
                                 else p_path ?parsed) request ?st1)"
    using send_reaches_handler [OF refl nonempty opened, of st] by (simp only: Let_def)
  show "\<exists>c. conn (snd (send env request st)) = Some c \<and> c_port c = 22
                \<and> c_hostname c = p_hostname ?parsed"
  proof (cases "map_of func_table (method request)")
    case None
    then show ?thesis
      using s port by simp
  next
    case (Some h)
    have "conn ?st1 = Some \<lparr>c_hostname = p_hostname ?parsed,
                         c_port = port_or_22 (p_port ?parsed), c_username = p_username ?parsed,
                         c_password = p_password ?parsed, close_calls = 0\<rparr>"
      by simp
    from invoke_keeps_session [OF this, of h env _ request] show ?thesis
      using s Some port by auto
  qed
qed

theorem verb_table_and_default_port_witness:
  "\<exists>c. conn (snd (send example_env (example_request ''GET'') \<lparr>conn = None, logged = []\<rparr>)) = Some c
        \<and> c_port c = 22 \<and> c_hostname c = Some ''host''"
  using verb_table_and_default_port [of example_env "example_request ''GET''"
      "\<lparr>conn = None, logged = []\<rparr>"]
  by (simp add: example_env_def example_request_def)

text \<open>
  Claim C10. When the method is not a key of the table of verbs, the session is
  already open and stored in \<^verbatim>\<open>conn\<close> when the lookup raises: \<^verbatim>\<open>send\<close> ends with the
  \<^verbatim>\<open>KeyError\<close> in a state whose \<^verbatim>\<open>conn\<close> is the new session, on which \<^verbatim>\<open>close\<close> was never
  called; and the adapter's own \<^verbatim>\<open>close\<close> leaves that state as it is.
\<close>

theorem unsupported_method_leaves_session_open:
  assumes "method request \<notin> fst ` set func_table"
    and "urlparse env (url request) = parsed"
    and "p_path parsed \<noteq> []"
    and "Connection env (p_hostname parsed) (port_or_22 (p_port parsed)) (p_username parsed)
           (p_password parsed) = None"
  shows "send env request st =
           (Inl (KeyError (method request)),
            st\<lparr>conn := Some \<lparr>c_hostname = p_hostname parsed,
                   c_port = port_or_22 (p_port parsed), c_username = p_username parsed,
                   c_password = p_password parsed, close_calls = 0\<rparr>\<rparr>)
       \<and> close (snd (send env request st)) = snd (send env request st)"
proof -
  have "map_of func_table (method request) = None"
    using assms(1) by (simp add: map_of_eq_None_iff)
  then show ?thesis
    using send_reaches_handler [OF assms(2-4), of st] by (simp add: Let_def close_def)
qed

theorem unsupported_method_leaves_session_open_witness:
  "send example_env (example_request ''DELE'') \<lparr>conn = None, logged = []\<rparr> =
     (Inl (KeyError ''DELE''), \<lparr>conn = Some example_conn, logged = []\<rparr>)"
proof -
  have k: "method (example_request ''DELE'') \<notin> fst ` set func_table"
    by (simp add: example_request_def func_table_def)
  have u: "urlparse example_env (url (example_request ''DELE'')) =
             \<lparr>p_hostname = Some ''host'', p_port = None, p_username = Some ''user'',
              p_password = None, p_path = ''/pkgs/repodata.json''\<rparr>"
    by (simp add: example_env_def example_request_def)
  show ?thesis
    using unsupported_method_leaves_session_open [OF k u, of "\<lparr>conn = None, logged = []\<rparr>"]
    by (simp add: example_env_def example_request_def example_conn_def port_or_22_def)
qed

end
